theory Spec2Isabelle
  imports Complex_Main
begin

section \<open>Data model of backend/main.py\<close>

text \<open>
  Values that travel through the handlers are JSON values: the free-form node
  configuration (\<open>Dict[str, Any]\<close> read back from the document store), the result
  dictionaries built by the node executors and the bodies of the broadcast messages.
  A Python float is kept as the rational number its literal denotes.
\<close>

datatype json =
    JNull
  | JBool bool
  | JInt int
  | JFloat rat
  | JStr string
  | JList "json list"
  | JObj "(string \<times> json) list"

text \<open>Python truthiness, as tested by \<open>if not flow_id\<close>.\<close>

fun truthy :: "json \<Rightarrow> bool" where
  "truthy JNull = False"
| "truthy (JBool b) = b"
| "truthy (JInt i) = (i \<noteq> 0)"
| "truthy (JFloat q) = (q \<noteq> 0)"
| "truthy (JStr s) = (s \<noteq> [])"
| "truthy (JList xs) = (xs \<noteq> [])"
| "truthy (JObj kvs) = (kvs \<noteq> [])"

text \<open>\<open>d.get(k)\<close> and \<open>d.get(k, default)\<close> on a dictionary.\<close>

definition dict_get :: "(string \<rightharpoonup> json) \<Rightarrow> string \<Rightarrow> json" where
  "dict_get d k = (case d k of None \<Rightarrow> JNull | Some v \<Rightarrow> v)"

definition dict_get_default :: "(string \<rightharpoonup> json) \<Rightarrow> string \<Rightarrow> json \<Rightarrow> json" where
  "dict_get_default d k dflt = (case d k of None \<Rightarrow> dflt | Some v \<Rightarrow> v)"

text \<open>
  The pydantic models \<open>Node\<close>, \<open>Edge\<close> and \<open>Workflow\<close>. The layout position of a
  node and the two timestamps of a workflow are carried by the documents but read by
  none of the functions below, so the records leave them out.
\<close>

record node =
  node_id :: string
  node_type :: string
  node_data :: "string \<rightharpoonup> json"

record edge =
  edge_id :: string
  source :: string
  target :: string
  sourceHandle :: "string option"
  targetHandle :: "string option"

record workflow =
  workflow_id :: string
  name :: string
  nodes :: "node list"
  edges :: "edge list"

text \<open>
  \<open>db.workflows.find_one({"id": workflow_id})\<close>: the first document of the
  collection with that id, or \<open>None\<close>.
\<close>

definition find_one :: "workflow list \<Rightarrow> string \<Rightarrow> workflow option" where
  "find_one workflows wid = find (\<lambda>w. workflow_id w = wid) workflows"

text \<open>\<open>next((n for n in workflow["nodes"] if n["id"] == node_id), None)\<close>\<close>

definition find_node :: "workflow \<Rightarrow> string \<Rightarrow> node option" where
  "find_node w nid = find (\<lambda>n. node_id n = nid) (nodes w)"

section \<open>The connection manager\<close>

text \<open>
  A WebSocket is an opaque handle. \<open>ConnectionManager.active_connections\<close> is a
  dictionary from workflow ids to the list of handles connected for that workflow.
\<close>

type_synonym websocket = nat

type_synonym connections = "string \<rightharpoonup> websocket list"

datatype exn = ValueError string

datatype http_exception = HTTPException nat string

text \<open>\<open>connect\<close>: create the list on first use, then append the handle.\<close>

definition connect :: "websocket \<Rightarrow> string \<Rightarrow> connections \<Rightarrow> connections" where
  "connect ws wid ac =
     (case ac wid of
        None \<Rightarrow> ac(wid \<mapsto> [] @ [ws])
      | Some conns \<Rightarrow> ac(wid \<mapsto> conns @ [ws]))"

text \<open>
  \<open>disconnect\<close>: guarded by \<open>workflow_id in self.active_connections\<close> only;
  \<open>list.remove\<close> deletes the first occurrence and raises \<open>ValueError\<close> when the
  element is not in the list.
\<close>

definition disconnect :: "websocket \<Rightarrow> string \<Rightarrow> connections \<Rightarrow> exn + connections" where
  "disconnect ws wid ac =
     (case ac wid of
        None \<Rightarrow> Inr ac
      | Some conns \<Rightarrow>
          if ws \<in> set conns then Inr (ac(wid \<mapsto> remove1 ws conns))
          else Inl (ValueError ''list.remove(x): x not in list''))"

section \<open>Process state\<close>

text \<open>
  A broadcast message has the fixed keys \<open>type\<close>, \<open>data\<close> and \<open>timestamp\<close>; the value
  written to Redis is the serialisation of a dictionary with the keys \<open>result\<close> and
  \<open>timestamp\<close>. Time is a clock counting seconds: \<open>datetime.now()\<close> reads it and
  \<open>asyncio.sleep\<close> advances it.
\<close>

record message =
  msg_type :: string
  msg_data :: json
  msg_timestamp :: nat

record cached =
  cached_result :: json
  cached_timestamp :: nat

text \<open>
  The state an invocation of \<open>execute_node\<close> reads and changes: the manager's
  dictionary, the sequence of \<open>send_json\<close> calls made so far (handle and message), the
  Redis keyspace (value and absolute expiry time), the clock, the two Prometheus
  metrics, the error log and the exceptions reported to Sentry. The model follows one
  invocation from its first to its last statement: every awaited call (\<open>send_json\<close>,
  \<open>setex\<close>, \<open>sleep\<close>) returns normally, and no other coroutine runs in between.
\<close>

record state =
  active_connections :: connections
  sent :: "(websocket \<times> message) list"
  redis :: "string \<rightharpoonup> (cached \<times> nat)"
  clock :: nat
  node_executions :: "string \<Rightarrow> nat"
  execution_time :: "(string \<times> nat) list"
  error_log :: "string list"
  sentry :: "exn list"

definition sleep :: "nat \<Rightarrow> state \<Rightarrow> state" where
  "sleep n s = s\<lparr>clock := clock s + n\<rparr>"

text \<open>The loop of \<open>broadcast_to_workflow\<close>: one \<open>send_json\<close> per handle, in list order.\<close>

primrec send_all :: "websocket list \<Rightarrow> message \<Rightarrow> (websocket \<times> message) list \<Rightarrow> (websocket \<times> message) list" where
  "send_all [] msg tr = tr"
| "send_all (c # cs) msg tr = send_all cs msg (tr @ [(c, msg)])"

definition broadcast_to_workflow :: "string \<Rightarrow> message \<Rightarrow> state \<Rightarrow> state" where
  "broadcast_to_workflow wid msg s =
     (case active_connections s wid of
        None \<Rightarrow> s
      | Some conns \<Rightarrow> s\<lparr>sent := send_all conns msg (sent s)\<rparr>)"

text \<open>\<open>redis_client.setex(key, ttl, value)\<close>: store the value, expiring \<open>ttl\<close> seconds from now.\<close>

definition setex :: "string \<Rightarrow> nat \<Rightarrow> cached \<Rightarrow> state \<Rightarrow> state" where
  "setex key ttl v s = s\<lparr>redis := (redis s)(key \<mapsto> (v, clock s + ttl))\<rparr>"

text \<open>
  Modelled from the spec: reading the result cache is not part of the source (the
  handlers only write to Redis). Section 4.1 of the specification: \<open>Get\<close> returns the
  payload if present and not expired, else a miss; an entry put at time \<open>now\<close> expires
  at \<open>now + ttl\<close>. The first argument is the time of the read.
\<close>

definition cache_get :: "nat \<Rightarrow> string \<Rightarrow> state \<Rightarrow> cached option" where
  "cache_get t key s =
     (case redis s key of
        None \<Rightarrow> None
      | Some (v, expiry) \<Rightarrow> if t < expiry then Some v else None)"

section \<open>Node execution\<close>

text \<open>
  The dispatch on \<open>node["type"]\<close> inside the \<open>with EXECUTION_TIME...time()\<close> block
  (lines 243 to 297). The argument \<open>uuid\<close> is the string \<open>uuid.uuid4()\<close> yields in
  this call. The variable \<open>result\<close> starts as \<open>None\<close> and stays so when no branch
  matches. The simulated Langflow request cannot raise \<open>httpx.HTTPError\<close>, so the
  inner handler that re-raises it has no branch here.
\<close>

definition run_node :: "node \<Rightarrow> string \<Rightarrow> state \<Rightarrow> (exn + json) \<times> state" where
  "run_node nd uuid s =
     (if node_type nd = ''startCall'' then
        (Inr (JObj [(''call_sid'', JStr (''CA'' @ uuid)),
                    (''status'', JStr ''initiated''),
                    (''from'', JStr ''+15551234567''),
                    (''to'', JStr ''+15559876543'')]), s)
      else if node_type nd = ''playAudio'' then
        (let message = dict_get_default (node_data nd) ''audioMessage''
                         (JStr ''Hello, this is a default message.'')
         in (Inr (JObj [(''audio_id'', JStr (''audio_'' @ uuid)),
                        (''message'', message),
                        (''status'', JStr ''generated'')]), sleep 1 s))
      else if node_type nd = ''aiNode'' then
        (let flow_id = dict_get (node_data nd) ''flowId''
         in if \<not> truthy flow_id then
              (Inl (ValueError ''No flow ID specified for AI Node''), s)
            else
              (Inr (JObj [(''response'', JStr ''This is a simulated AI response''),
                          (''confidence'', JFloat (95 / 100)),
                          (''intent'', JStr ''greeting'')]), sleep 2 s))
      else if node_type nd = ''endCall'' then
        (Inr (JObj [(''status'', JStr ''completed''),
                    (''duration'', JInt 120),
                    (''outcome'', JStr ''success'')]), s)
      else (Inr JNull, s))"

text \<open>The three messages broadcast by \<open>execute_node\<close>.\<close>

definition start_message :: "string \<Rightarrow> string \<Rightarrow> nat \<Rightarrow> message" where
  "start_message nid wid t =
     \<lparr>msg_type = ''node_execution_start'',
      msg_data = JObj [(''node_id'', JStr nid), (''workflow_id'', JStr wid),
                       (''status'', JStr ''running'')],
      msg_timestamp = t\<rparr>"

definition complete_message :: "string \<Rightarrow> string \<Rightarrow> json \<Rightarrow> nat \<Rightarrow> message" where
  "complete_message nid wid result t =
     \<lparr>msg_type = ''node_execution_complete'',
      msg_data = JObj [(''node_id'', JStr nid), (''workflow_id'', JStr wid),
                       (''status'', JStr ''completed''), (''result'', result)],
      msg_timestamp = t\<rparr>"

definition error_message :: "string \<Rightarrow> string \<Rightarrow> string \<Rightarrow> nat \<Rightarrow> message" where
  "error_message nid wid err t =
     \<lparr>msg_type = ''node_execution_error'',
      msg_data = JObj [(''node_id'', JStr nid), (''workflow_id'', JStr wid),
                       (''status'', JStr ''error''), (''error'', JStr err)],
      msg_timestamp = t\<rparr>"

text \<open>
  The body of the \<open>try\<close> (lines 227 to 322): broadcast the start, count the
  execution, run the node under the duration timer (which records on exit, also when
  the body raises), then cache the result for 3600 seconds and broadcast completion.
\<close>

definition try_block :: "string \<Rightarrow> string \<Rightarrow> node \<Rightarrow> string \<Rightarrow> state \<Rightarrow> (exn + json) \<times> state" where
  "try_block nid wid nd uuid s =
     (let s1 = broadcast_to_workflow wid (start_message nid wid (clock s)) s;
          s2 = s1\<lparr>node_executions :=
                    (node_executions s1)(node_type nd := node_executions s1 (node_type nd) + 1)\<rparr>;
          (r, s3) = run_node nd uuid s2;
          s4 = s3\<lparr>execution_time := execution_time s3 @ [(node_type nd, clock s3 - clock s2)]\<rparr>
      in case r of
           Inl e \<Rightarrow> (Inl e, s4)
         | Inr result \<Rightarrow>
             (let s5 = setex (''node_result:'' @ nid) 3600
                         \<lparr>cached_result = result, cached_timestamp = clock s4\<rparr> s4;
                  s6 = broadcast_to_workflow wid (complete_message nid wid result (clock s5)) s5
              in (Inr result, s6)))"

text \<open>\<open>str(e)\<close> of an exception raised with one message argument.\<close>

fun str_exn :: "exn \<Rightarrow> string" where
  "str_exn (ValueError m) = m"

text \<open>
  The \<open>except Exception\<close> handler (lines 324 to 343): log, report, set \<open>error\<close> and
  broadcast the error message.
\<close>

definition except_block :: "string \<Rightarrow> string \<Rightarrow> exn \<Rightarrow> state \<Rightarrow> string \<times> state" where
  "except_block nid wid e s =
     (let s1 = s\<lparr>error_log := error_log s @ [''Error executing node '' @ nid @ '': '' @ str_exn e]\<rparr>;
          s2 = s1\<lparr>sentry := sentry s1 @ [e]\<rparr>;
          error = str_exn e;
          s3 = broadcast_to_workflow wid (error_message nid wid error (clock s2)) s2
      in (error, s3))"

text \<open>
  \<open>execute_node\<close>. The two lookups raise \<open>HTTPException\<close> before the \<open>try\<close> is
  entered, so that exception leaves the handler. After the \<open>try\<close>, a non-empty
  \<open>error\<close> gives the failure dictionary; otherwise the success dictionary carries
  \<open>result\<close>, which is still \<open>None\<close> whenever the body raised (no assignment to it
  comes before a raise). The request body \<open>input_data\<close> is accepted and not read.
\<close>

definition execute_node ::
  "workflow list \<Rightarrow> string \<Rightarrow> string \<Rightarrow> (string \<rightharpoonup> json) \<Rightarrow> string \<Rightarrow> state
     \<Rightarrow> (http_exception + json) \<times> state" where
  "execute_node db nid wid input_data uuid s =
     (case find_one db wid of
        None \<Rightarrow> (Inl (HTTPException 404 ''Workflow not found''), s)
      | Some w \<Rightarrow>
          (case find_node w nid of
             None \<Rightarrow> (Inl (HTTPException 404 ''Node not found''), s)
           | Some nd \<Rightarrow>
               (case try_block nid wid nd uuid s of
                  (Inr result, s') \<Rightarrow>
                     (Inr (JObj [(''success'', JBool True), (''data'', result)]), s')
                | (Inl e, s') \<Rightarrow>
                     (let (error, s'') = except_block nid wid e s'
                      in if error \<noteq> [] then
                           (Inr (JObj [(''success'', JBool False), (''error'', JStr error)]), s'')
                         else
                           (Inr (JObj [(''success'', JBool True), (''data'', JNull)]), s'')))))"

text \<open>
  Observations used to state the properties: the handles registered for a workflow,
  and the messages a handle has been sent, in order.
\<close>

definition subscribers :: "state \<Rightarrow> string \<Rightarrow> websocket list" where
  "subscribers s wid = (case active_connections s wid of None \<Rightarrow> [] | Some conns \<Rightarrow> conns)"

definition delivered :: "websocket \<Rightarrow> state \<Rightarrow> message list" where
  "delivered ws s = map snd (filter (\<lambda>p. fst p = ws) (sent s))"

section \<open>Sends that do not return\<close>

text \<open>
  \<open>broadcast_to_workflow\<close> awaits each \<open>send_json\<close> before it starts the next one
  (lines 87 to 90): the manager keeps no queue and starts no task per connection. An
  awaited send to a peer that does not take the message does not return. With the set
  of such handles as a parameter, the loop below either returns after the last send or
  stays suspended at the first blocked handle, with only the earlier sends made.
\<close>

datatype progress = Returned | Suspended

primrec send_all_blocking ::
  "websocket set \<Rightarrow> websocket list \<Rightarrow> message \<Rightarrow> (websocket \<times> message) list
     \<Rightarrow> progress \<times> (websocket \<times> message) list" where
  "send_all_blocking blocked [] msg tr = (Returned, tr)"
| "send_all_blocking blocked (c # cs) msg tr =
     (if c \<in> blocked then (Suspended, tr)
      else send_all_blocking blocked cs msg (tr @ [(c, msg)]))"

definition broadcast_to_workflow_blocking ::
  "websocket set \<Rightarrow> string \<Rightarrow> message \<Rightarrow> state \<Rightarrow> progress \<times> state" where
  "broadcast_to_workflow_blocking blocked wid msg s =
     (case active_connections s wid of
        None \<Rightarrow> (Returned, s)
      | Some conns \<Rightarrow>
          (case send_all_blocking blocked conns msg (sent s) of
             (p, tr) \<Rightarrow> (p, s\<lparr>sent := tr\<rparr>)))"

section \<open>A concrete workflow\<close>

text \<open>
  One stored workflow \<open>w1\<close> with a node of every kind, and a process state at time
  100 in which handle 7 is connected for \<open>w1\<close> and Redis still holds an older result
  of node \<open>n7\<close>.
\<close>

definition example_nodes :: "node list" where
  "example_nodes =
     [\<lparr>node_id = ''n1'', node_type = ''playAudio'', node_data = [''audioMessage'' \<mapsto> JStr ''Hi'']\<rparr>,
      \<lparr>node_id = ''n2'', node_type = ''aiNode'', node_data = Map.empty\<rparr>,
      \<lparr>node_id = ''n3'', node_type = ''aiNode'', node_data = [''flowId'' \<mapsto> JStr '''']\<rparr>,
      \<lparr>node_id = ''n4'', node_type = ''aiNode'', node_data = [''flowId'' \<mapsto> JStr ''f1'']\<rparr>,
      \<lparr>node_id = ''n5'', node_type = ''startCall'', node_data = Map.empty\<rparr>,
      \<lparr>node_id = ''n6'', node_type = ''endCall'', node_data = Map.empty\<rparr>,
      \<lparr>node_id = ''n7'', node_type = ''transfer'', node_data = Map.empty\<rparr>]"

definition example_workflow :: workflow where
  "example_workflow = \<lparr>workflow_id = ''w1'', name = ''demo'', nodes = example_nodes, edges = []\<rparr>"

definition example_db :: "workflow list" where
  "example_db = [example_workflow]"

definition example_state :: state where
  "example_state =
     \<lparr>active_connections = [''w1'' \<mapsto> [7]],
      sent = [],
      redis = [''node_result:n7'' \<mapsto>
                 (\<lparr>cached_result = JStr ''old'', cached_timestamp = 50\<rparr>, 3650)],
      clock = 100,
      node_executions = (\<lambda>_. 0),
      execution_time = [],
      error_log = [],
      sentry = []\<rparr>"

text \<open>The same state with three handles connected for \<open>w1\<close>, in this order.\<close>

definition example_state_three :: state where
  "example_state_three = example_state\<lparr>active_connections := [''w1'' \<mapsto> [8, 7, 9]]\<rparr>"

section \<open>Basic facts\<close>

lemma send_all_append: "send_all cs msg tr = tr @ map (\<lambda>c. (c, msg)) cs"
  by (induction cs arbitrary: tr) simp_all

lemma delivered_map:
  "map snd (filter (\<lambda>p. fst p = ws) (map (\<lambda>c. (c, msg)) cs)) = replicate (count_list cs ws) msg"
  by (induction cs) simp_all

lemma delivered_broadcast:
  "delivered ws (broadcast_to_workflow wid msg s) =
     delivered ws s @ replicate (count_list (subscribers s wid) ws) msg"
  by (simp add: delivered_def broadcast_to_workflow_def subscribers_def send_all_append
        delivered_map split: option.splits)

lemma subscribers_broadcast: "subscribers (broadcast_to_workflow wid msg s) wid' = subscribers s wid'"
  by (simp add: broadcast_to_workflow_def subscribers_def split: option.splits)

lemma redis_broadcast: "redis (broadcast_to_workflow wid msg s) = redis s"
  by (simp add: broadcast_to_workflow_def split: option.splits)

lemma clock_broadcast: "clock (broadcast_to_workflow wid msg s) = clock s"
  by (simp add: broadcast_to_workflow_def split: option.splits)

lemma delivered_frame:
  "delivered ws (s\<lparr>node_executions := ne\<rparr>) = delivered ws s"
  "delivered ws (s\<lparr>execution_time := et\<rparr>) = delivered ws s"
  "delivered ws (s\<lparr>error_log := el\<rparr>) = delivered ws s"
  "delivered ws (s\<lparr>sentry := se\<rparr>) = delivered ws s"
  "delivered ws (s\<lparr>clock := c\<rparr>) = delivered ws s"
  "delivered ws (s\<lparr>redis := r\<rparr>) = delivered ws s"
  by (simp_all add: delivered_def)

lemma subscribers_frame:
  "subscribers (s\<lparr>node_executions := ne\<rparr>) wid = subscribers s wid"
  "subscribers (s\<lparr>execution_time := et\<rparr>) wid = subscribers s wid"
  "subscribers (s\<lparr>error_log := el\<rparr>) wid = subscribers s wid"
  "subscribers (s\<lparr>sentry := se\<rparr>) wid = subscribers s wid"
  "subscribers (s\<lparr>clock := c\<rparr>) wid = subscribers s wid"
  "subscribers (s\<lparr>redis := r\<rparr>) wid = subscribers s wid"
  by (simp_all add: subscribers_def)

lemmas bc_simps = delivered_broadcast subscribers_broadcast redis_broadcast clock_broadcast
  delivered_frame subscribers_frame

lemma run_node_raises:
  "run_node nd uuid s = (Inl e, s') \<Longrightarrow>
     e = ValueError ''No flow ID specified for AI Node'' \<and> s' = s \<and>
     node_type nd = ''aiNode'' \<and> \<not> truthy (dict_get (node_data nd) ''flowId'')"
  by (simp add: run_node_def Let_def split: if_splits)

text \<open>Closed form of a run that finds the node and whose executor returns.\<close>

lemma execute_node_returns:
  assumes "find_one db wid = Some w" and "find_node w nid = Some nd"
    and "run_node nd uuid s2 = (Inr result, sleep d s2)"
    and "s2 = (broadcast_to_workflow wid (start_message nid wid (clock s)) s)
               \<lparr>node_executions := (node_executions s)(node_type nd := node_executions s (node_type nd) + 1)\<rparr>"
  shows "execute_node db nid wid inp uuid s =
     (Inr (JObj [(''success'', JBool True), (''data'', result)]),
      broadcast_to_workflow wid (complete_message nid wid result (clock s + d))
        (setex (''node_result:'' @ nid) 3600 \<lparr>cached_result = result, cached_timestamp = clock s + d\<rparr>
           ((sleep d s2)\<lparr>execution_time := execution_time s @ [(node_type nd, d)]\<rparr>)))"
  using assms
  by (simp add: execute_node_def try_block_def Let_def sleep_def setex_def
        broadcast_to_workflow_def split: option.splits)

lemma execute_node_raises:
  assumes "find_one db wid = Some w" and "find_node w nid = Some nd"
    and "node_type nd = ''aiNode''" and "\<not> truthy (dict_get (node_data nd) ''flowId'')"
  shows "execute_node db nid wid inp uuid s =
     (Inr (JObj [(''success'', JBool False), (''error'', JStr ''No flow ID specified for AI Node'')]),
      broadcast_to_workflow wid
        (error_message nid wid ''No flow ID specified for AI Node'' (clock s))
        ((broadcast_to_workflow wid (start_message nid wid (clock s)) s)
           \<lparr>node_executions := (node_executions s)(''aiNode'' := node_executions s ''aiNode'' + 1),
            execution_time := execution_time s @ [(''aiNode'', 0)],
            error_log := error_log s @
               [''Error executing node '' @ nid @ '': No flow ID specified for AI Node''],
            sentry := sentry s @ [ValueError ''No flow ID specified for AI Node'']\<rparr>))"
  using assms
  by (simp add: execute_node_def try_block_def except_block_def run_node_def Let_def
        broadcast_to_workflow_def split: option.splits)

lemma example_find_one: "find_one example_db ''w1'' = Some example_workflow"
  by (simp add: find_one_def example_db_def example_workflow_def)

lemma example_find_node:
  "find_node example_workflow ''n1'' = Some \<lparr>node_id = ''n1'', node_type = ''playAudio'', node_data = [''audioMessage'' \<mapsto> JStr ''Hi'']\<rparr>"
  "find_node example_workflow ''n2'' = Some \<lparr>node_id = ''n2'', node_type = ''aiNode'', node_data = Map.empty\<rparr>"
  "find_node example_workflow ''n3'' = Some \<lparr>node_id = ''n3'', node_type = ''aiNode'', node_data = [''flowId'' \<mapsto> JStr '''']\<rparr>"
  "find_node example_workflow ''n4'' = Some \<lparr>node_id = ''n4'', node_type = ''aiNode'', node_data = [''flowId'' \<mapsto> JStr ''f1'']\<rparr>"
  "find_node example_workflow ''n5'' = Some \<lparr>node_id = ''n5'', node_type = ''startCall'', node_data = Map.empty\<rparr>"
  "find_node example_workflow ''n6'' = Some \<lparr>node_id = ''n6'', node_type = ''endCall'', node_data = Map.empty\<rparr>"
  "find_node example_workflow ''n7'' = Some \<lparr>node_id = ''n7'', node_type = ''transfer'', node_data = Map.empty\<rparr>"
  by (simp_all add: find_node_def example_workflow_def example_nodes_def)

lemma example_subscribers: "subscribers example_state ''w1'' = [7]"
  by (simp add: subscribers_def example_state_def)

lemma example_delivered: "delivered ws example_state = []"
  by (simp add: delivered_def example_state_def)

lemma example_clock: "clock example_state = 100"
  by (simp add: example_state_def)

lemma sleep_0: "sleep 0 s = s"
  by (simp add: sleep_def)

lemmas final_simps = bc_simps setex_def sleep_def

lemmas msg_defs = start_message_def complete_message_def error_message_def

lemmas exec_defs = execute_node_def try_block_def except_block_def run_node_def
  broadcast_to_workflow_def setex_def sleep_def Let_def dict_get_def dict_get_default_def

lemma example_clock_after:
  "clock (snd (execute_node example_db ''n5'' ''w1'' Map.empty ''u'' example_state)) = 100"
  "clock (snd (execute_node example_db ''n1'' ''w1'' Map.empty ''u'' example_state)) = 101"
  "clock (snd (execute_node example_db ''n4'' ''w1'' Map.empty ''u'' example_state)) = 102"
  "clock (snd (execute_node example_db ''n6'' ''w1'' Map.empty ''u'' example_state)) = 100"
  "clock (snd (execute_node example_db ''n7'' ''w1'' Map.empty ''u'' example_state)) = 100"
  by (simp_all add: exec_defs example_find_one example_find_node example_state_def)

lemma try_block_cached:
  "try_block nid wid nd uuid s = (Inr r, s') \<Longrightarrow>
     redis s' (''node_result:'' @ nid) =
       Some (\<lparr>cached_result = r, cached_timestamp = clock s'\<rparr>, clock s' + 3600)"
  by (auto simp add: try_block_def Let_def setex_def bc_simps
        split: prod.splits sum.splits)

lemma try_block_error:
  "try_block nid wid nd uuid s = (Inl e, s') \<Longrightarrow> str_exn e \<noteq> []"
  by (auto simp add: try_block_def Let_def split: prod.splits sum.splits
        dest!: run_node_raises)

section \<open>Lookup failures\<close>

text \<open>
  C1 (as amended). When the workflow id is not in the store, or the node id is not in
  the workflow's node list, \<open>execute_node\<close> raises \<open>HTTPException\<close> with status 404
  and detail "Workflow not found", respectively "Node not found". It returns no
  dictionary, and the state is the one it was called in: no message has been sent to
  any handle and Redis is untouched.
\<close>

theorem execute_node_not_found:
  "(find_one db wid = None \<longrightarrow>
      execute_node db nid wid inp uuid s = (Inl (HTTPException 404 ''Workflow not found''), s)) \<and>
   (\<forall>w. find_one db wid = Some w \<and> find_node w nid = None \<longrightarrow>
      execute_node db nid wid inp uuid s = (Inl (HTTPException 404 ''Node not found''), s))"
  by (simp add: execute_node_def)

theorem execute_node_not_found_witness:
  "find_one [] ''w1'' = None \<and>
   execute_node [] ''n1'' ''w1'' Map.empty ''u'' example_state =
     (Inl (HTTPException 404 ''Workflow not found''), example_state) \<and>
   find_one example_db ''w1'' = Some example_workflow \<and>
   find_node example_workflow ''n8'' = None \<and>
   execute_node example_db ''n8'' ''w1'' Map.empty ''u'' example_state =
     (Inl (HTTPException 404 ''Node not found''), example_state)"
proof -
  have a: "find_one [] ''w1'' = None"
    by (simp add: find_one_def)
  have b: "find_one example_db ''w1'' = Some example_workflow"
    by (rule example_find_one)
  have c: "find_node example_workflow ''n8'' = None"
    by (simp add: find_node_def example_workflow_def example_nodes_def)
  from execute_node_not_found [of "[]" "''w1''" "''n1''" Map.empty "''u''" example_state] a
  have d: "execute_node [] ''n1'' ''w1'' Map.empty ''u'' example_state =
     (Inl (HTTPException 404 ''Workflow not found''), example_state)"
    by blast
  from execute_node_not_found [of example_db "''w1''" "''n8''" Map.empty "''u''" example_state] b c
  have e: "execute_node example_db ''n8'' ''w1'' Map.empty ''u'' example_state =
     (Inl (HTTPException 404 ''Node not found''), example_state)"
    by blast
  from a b c d e show ?thesis by blast
qed

text \<open>
  C1 as written does not hold: on an unknown workflow the call does not return a
  dictionary with \<open>success\<close> false, it raises.
\<close>

theorem execute_node_not_found_raises:
  "fst (execute_node [] ''n1'' ''w1'' Map.empty ''u'' example_state) =
     Inl (HTTPException 404 ''Workflow not found'') \<and>
   fst (execute_node [] ''n1'' ''w1'' Map.empty ''u'' example_state) \<noteq>
     Inr (JObj [(''success'', JBool False), (''error'', JStr ''Workflow not found'')]) \<and>
   isl (fst (execute_node [] ''n1'' ''w1'' Map.empty ''u'' example_state))"
  by (simp add: execute_node_def find_one_def)

section \<open>AI nodes without a flow id\<close>

text \<open>
  C2. An \<open>aiNode\<close> whose configuration has no \<open>flowId\<close> key: \<open>execute_node\<close>
  returns the dictionary with \<open>success\<close> false and the error "No flow ID specified for
  AI Node". Every handle receives, after what it had received before, the start
  message and then the error message, once per registration for the workflow (so a
  handle connected once receives exactly these two, and no completion message), and
  the Redis keyspace is the one before the call.
\<close>

theorem aiNode_without_flowId_fails:
  assumes "find_one db wid = Some w" and "find_node w nid = Some nd"
    and "node_type nd = ''aiNode''" and "node_data nd ''flowId'' = None"
  shows "fst (execute_node db nid wid inp uuid s) =
           Inr (JObj [(''success'', JBool False),
                      (''error'', JStr ''No flow ID specified for AI Node'')]) \<and>
         (\<forall>ws. delivered ws (snd (execute_node db nid wid inp uuid s)) =
            delivered ws s
            @ replicate (count_list (subscribers s wid) ws)
           (\<lparr>msg_type = ''node_execution_start'',
             msg_data = JObj [(''node_id'', JStr nid), (''workflow_id'', JStr wid),
                (''status'', JStr ''running'')],
             msg_timestamp = clock s\<rparr>)
            @ replicate (count_list (subscribers s wid) ws)
                (\<lparr>msg_type = ''node_execution_error'',
                  msg_data = JObj [(''node_id'', JStr nid), (''workflow_id'', JStr wid),
                     (''status'', JStr ''error''),
                     (''error'', JStr ''No flow ID specified for AI Node'')],
                  msg_timestamp = clock s\<rparr>)) \<and>
         redis (snd (execute_node db nid wid inp uuid s)) = redis s"
proof -
  have "\<not> truthy (dict_get (node_data nd) ''flowId'')"
    using assms(4) by (simp add: msg_defs dict_get_def)
  from execute_node_raises [OF assms(1,2,3) this, of inp uuid s]
  show ?thesis by (simp add: msg_defs bc_simps)
qed

theorem aiNode_without_flowId_fails_witness:
  "find_one example_db ''w1'' = Some example_workflow \<and>
   find_node example_workflow ''n2'' =
     Some \<lparr>node_id = ''n2'', node_type = ''aiNode'', node_data = Map.empty\<rparr> \<and>
   fst (execute_node example_db ''n2'' ''w1'' Map.empty ''u'' example_state) =
     Inr (JObj [(''success'', JBool False),
                (''error'', JStr ''No flow ID specified for AI Node'')]) \<and>
   delivered 7 (snd (execute_node example_db ''n2'' ''w1'' Map.empty ''u'' example_state)) =
     [\<lparr>msg_type = ''node_execution_start'',
       msg_data = JObj [(''node_id'', JStr ''n2''), (''workflow_id'', JStr ''w1''),
          (''status'', JStr ''running'')],
       msg_timestamp = 100\<rparr>,
      \<lparr>msg_type = ''node_execution_error'',
       msg_data = JObj [(''node_id'', JStr ''n2''), (''workflow_id'', JStr ''w1''),
          (''status'', JStr ''error''),
          (''error'', JStr ''No flow ID specified for AI Node'')],
       msg_timestamp = 100\<rparr>] \<and>
   redis (snd (execute_node example_db ''n2'' ''w1'' Map.empty ''u'' example_state)) =
     redis example_state"
  using aiNode_without_flowId_fails [OF example_find_one example_find_node(2),
          of Map.empty "''u''" example_state]
  by (simp add: msg_defs example_find_one example_find_node example_subscribers example_delivered
        example_clock)

text \<open>
  C10. An \<open>aiNode\<close> whose \<open>flowId\<close> key holds a falsy value (the empty string, \<open>None\<close>,
  zero, false, an empty list or dictionary) fails in the same way: same returned
  dictionary, start then error message, Redis unchanged. Moreover the returned value
  and the whole final state are equal to those of a call, from the same state and for
  the same ids, that finds an \<open>aiNode\<close> without the key.
\<close>

theorem falsy_flowId_like_absent:
  assumes "find_one db wid = Some w" and "find_node w nid = Some nd"
    and "node_type nd = ''aiNode''" and "node_data nd ''flowId'' = Some v" and "\<not> truthy v"
  shows "fst (execute_node db nid wid inp uuid s) =
           Inr (JObj [(''success'', JBool False),
                      (''error'', JStr ''No flow ID specified for AI Node'')]) \<and>
         (\<forall>ws. delivered ws (snd (execute_node db nid wid inp uuid s)) =
            delivered ws s
            @ replicate (count_list (subscribers s wid) ws)
           (\<lparr>msg_type = ''node_execution_start'',
             msg_data = JObj [(''node_id'', JStr nid), (''workflow_id'', JStr wid),
                (''status'', JStr ''running'')],
             msg_timestamp = clock s\<rparr>)
            @ replicate (count_list (subscribers s wid) ws)
                (\<lparr>msg_type = ''node_execution_error'',
                  msg_data = JObj [(''node_id'', JStr nid), (''workflow_id'', JStr wid),
                     (''status'', JStr ''error''),
                     (''error'', JStr ''No flow ID specified for AI Node'')],
                  msg_timestamp = clock s\<rparr>)) \<and>
         redis (snd (execute_node db nid wid inp uuid s)) = redis s \<and>
         (\<forall>db' w' nd' inp' uuid'.
            find_one db' wid = Some w' \<and> find_node w' nid = Some nd' \<and>
            node_type nd' = ''aiNode'' \<and> node_data nd' ''flowId'' = None \<longrightarrow>
            execute_node db' nid wid inp' uuid' s = execute_node db nid wid inp uuid s)"
proof -
  have falsy: "\<not> truthy (dict_get (node_data nd) ''flowId'')"
    using assms(4,5) by (simp add: msg_defs dict_get_def)
  note run = execute_node_raises [OF assms(1,2,3) falsy, of inp uuid s]
  have same: "execute_node db' nid wid inp' uuid' s = execute_node db nid wid inp uuid s"
    if "find_one db' wid = Some w'" "find_node w' nid = Some nd'"
       "node_type nd' = ''aiNode''" "node_data nd' ''flowId'' = None"
    for db' w' nd' inp' uuid'
  proof -
    have "\<not> truthy (dict_get (node_data nd') ''flowId'')"
      using that(4) by (simp add: msg_defs dict_get_def)
    from execute_node_raises [OF that(1,2,3) this, of inp' uuid' s] run
    show ?thesis by simp
  qed
  from run same show ?thesis by (simp add: msg_defs bc_simps)
qed

theorem falsy_flowId_like_absent_witness:
  "find_one example_db ''w1'' = Some example_workflow \<and>
   find_node example_workflow ''n3'' =
     Some \<lparr>node_id = ''n3'', node_type = ''aiNode'', node_data = [''flowId'' \<mapsto> JStr '''']\<rparr> \<and>
   \<not> truthy (JStr '''') \<and>
   fst (execute_node example_db ''n3'' ''w1'' Map.empty ''u'' example_state) =
     Inr (JObj [(''success'', JBool False),
                (''error'', JStr ''No flow ID specified for AI Node'')]) \<and>
   delivered 7 (snd (execute_node example_db ''n3'' ''w1'' Map.empty ''u'' example_state)) =
     [\<lparr>msg_type = ''node_execution_start'',
       msg_data = JObj [(''node_id'', JStr ''n3''), (''workflow_id'', JStr ''w1''),
          (''status'', JStr ''running'')],
       msg_timestamp = 100\<rparr>,
      \<lparr>msg_type = ''node_execution_error'',
       msg_data = JObj [(''node_id'', JStr ''n3''), (''workflow_id'', JStr ''w1''),
          (''status'', JStr ''error''),
          (''error'', JStr ''No flow ID specified for AI Node'')],
       msg_timestamp = 100\<rparr>] \<and>
   redis (snd (execute_node example_db ''n3'' ''w1'' Map.empty ''u'' example_state)) =
     redis example_state \<and>
   execute_node
       [\<lparr>workflow_id = ''w1'', name = ''demo'',
         nodes = [\<lparr>node_id = ''n3'', node_type = ''aiNode'', node_data = Map.empty\<rparr>],
         edges = []\<rparr>]
       ''n3'' ''w1'' Map.empty ''v'' example_state =
     execute_node example_db ''n3'' ''w1'' Map.empty ''u'' example_state"
proof -
  let ?nd' = "\<lparr>node_id = ''n3'', node_type = ''aiNode'', node_data = Map.empty\<rparr>"
  let ?w' = "\<lparr>workflow_id = ''w1'', name = ''demo'', nodes = [?nd'], edges = []\<rparr>"
  have falsy: "\<not> truthy (JStr '''')"
    by simp
  have f1: "find_one [?w'] ''w1'' = Some ?w'"
    by (simp add: msg_defs find_one_def)
  have f2: "find_node ?w' ''n3'' = Some ?nd'"
    by (simp add: msg_defs find_node_def)
  have f3: "node_type ?nd' = ''aiNode''" "node_data ?nd' ''flowId'' = None"
    by simp_all
  have t: "fst (execute_node example_db ''n3'' ''w1'' Map.empty ''u'' example_state) =
           Inr (JObj [(''success'', JBool False),
                      (''error'', JStr ''No flow ID specified for AI Node'')]) \<and>
         (\<forall>ws. delivered ws (snd (execute_node example_db ''n3'' ''w1'' Map.empty ''u'' example_state)) =
            delivered ws example_state
            @ replicate (count_list (subscribers example_state ''w1'') ws)
                (\<lparr>msg_type = ''node_execution_start'',
                  msg_data = JObj [(''node_id'', JStr ''n3''), (''workflow_id'', JStr ''w1''),
                     (''status'', JStr ''running'')],
                  msg_timestamp = clock example_state\<rparr>)
            @ replicate (count_list (subscribers example_state ''w1'') ws)
                (\<lparr>msg_type = ''node_execution_error'',
                  msg_data = JObj [(''node_id'', JStr ''n3''), (''workflow_id'', JStr ''w1''),
                     (''status'', JStr ''error''),
                     (''error'', JStr ''No flow ID specified for AI Node'')],
                  msg_timestamp = clock example_state\<rparr>)) \<and>
         redis (snd (execute_node example_db ''n3'' ''w1'' Map.empty ''u'' example_state)) =
           redis example_state \<and>
         (\<forall>db' w' nd' inp' uuid'.
            find_one db' ''w1'' = Some w' \<and> find_node w' ''n3'' = Some nd' \<and>
            node_type nd' = ''aiNode'' \<and> node_data nd' ''flowId'' = None \<longrightarrow>
            execute_node db' ''n3'' ''w1'' inp' uuid' example_state =
              execute_node example_db ''n3'' ''w1'' Map.empty ''u'' example_state)"
    by (rule falsy_flowId_like_absent [OF example_find_one example_find_node(3) _ _ falsy])
       simp_all
  from t f1 f2 f3 have same: "execute_node [?w'] ''n3'' ''w1'' Map.empty ''v'' example_state =
     execute_node example_db ''n3'' ''w1'' Map.empty ''u'' example_state"
    by blast
  from t have "delivered 7 (snd (execute_node example_db ''n3'' ''w1'' Map.empty ''u'' example_state)) =
     [\<lparr>msg_type = ''node_execution_start'',
       msg_data = JObj [(''node_id'', JStr ''n3''), (''workflow_id'', JStr ''w1''),
          (''status'', JStr ''running'')],
       msg_timestamp = 100\<rparr>,
      \<lparr>msg_type = ''node_execution_error'',
       msg_data = JObj [(''node_id'', JStr ''n3''), (''workflow_id'', JStr ''w1''),
          (''status'', JStr ''error''),
          (''error'', JStr ''No flow ID specified for AI Node'')],
       msg_timestamp = 100\<rparr>]"
    by (simp add: msg_defs example_subscribers example_delivered example_clock)
  with t same falsy example_find_one example_find_node(3) show ?thesis
    by blast
qed

section \<open>Executions that return a result\<close>

text \<open>
  C3. A node of type \<open>startCall\<close>, \<open>playAudio\<close> or \<open>endCall\<close>, or an \<open>aiNode\<close> with a flow
  id (one that passes the check \<open>if not flow_id\<close>; the falsy values are the subject of
  C10), found in a stored workflow: \<open>execute_node\<close> returns \<open>success\<close> true with the
  result dictionary of that type, and every handle receives, after what it had
  received before, the start message (status "running") and then the completion
  message (status "completed", carrying that result), once per registration for the
  workflow and nothing else.
\<close>

theorem known_node_types_succeed:
  assumes "find_one db wid = Some w" and "find_node w nid = Some nd"
    and "node_type nd = ''startCall'' \<or> node_type nd = ''playAudio'' \<or>
         node_type nd = ''endCall'' \<or>
         (node_type nd = ''aiNode'' \<and> truthy (dict_get (node_data nd) ''flowId''))"
  shows "\<exists>result.
     fst (execute_node db nid wid inp uuid s) =
       Inr (JObj [(''success'', JBool True), (''data'', result)]) \<and>
     (node_type nd = ''startCall'' \<longrightarrow>
        result = JObj [(''call_sid'', JStr (''CA'' @ uuid)), (''status'', JStr ''initiated''),
                       (''from'', JStr ''+15551234567''), (''to'', JStr ''+15559876543'')]) \<and>
     (node_type nd = ''playAudio'' \<longrightarrow>
        result = JObj [(''audio_id'', JStr (''audio_'' @ uuid)),
                       (''message'', dict_get_default (node_data nd) ''audioMessage''
                                       (JStr ''Hello, this is a default message.'')),
                       (''status'', JStr ''generated'')]) \<and>
     (node_type nd = ''aiNode'' \<longrightarrow>
        result = JObj [(''response'', JStr ''This is a simulated AI response''),
                       (''confidence'', JFloat (95 / 100)), (''intent'', JStr ''greeting'')]) \<and>
     (node_type nd = ''endCall'' \<longrightarrow>
        result = JObj [(''status'', JStr ''completed''), (''duration'', JInt 120),
                       (''outcome'', JStr ''success'')]) \<and>
     (\<forall>ws. delivered ws (snd (execute_node db nid wid inp uuid s)) =
        delivered ws s
        @ replicate (count_list (subscribers s wid) ws)
           (\<lparr>msg_type = ''node_execution_start'',
             msg_data = JObj [(''node_id'', JStr nid), (''workflow_id'', JStr wid),
                (''status'', JStr ''running'')],
             msg_timestamp = clock s\<rparr>)
        @ replicate (count_list (subscribers s wid) ws)
            (\<lparr>msg_type = ''node_execution_complete'',
              msg_data = JObj [(''node_id'', JStr nid), (''workflow_id'', JStr wid),
                 (''status'', JStr ''completed''), (''result'', result)],
              msg_timestamp = clock (snd (execute_node db nid wid inp uuid s))\<rparr>))"
proof -
  define s2 where "s2 = (broadcast_to_workflow wid (start_message nid wid (clock s)) s)
      \<lparr>node_executions := (node_executions s)(node_type nd := node_executions s (node_type nd) + 1)\<rparr>"
  have s2: "clock s2 = clock s" "subscribers s2 wid = subscribers s wid"
    "\<And>ws. delivered ws s2 = delivered ws s
        @ replicate (count_list (subscribers s wid) ws)
           (\<lparr>msg_type = ''node_execution_start'',
             msg_data = JObj [(''node_id'', JStr nid), (''workflow_id'', JStr wid),
                (''status'', JStr ''running'')],
             msg_timestamp = clock s\<rparr>)"
    by (simp_all add: msg_defs s2_def bc_simps)
  from assms(3) consider
      (start) "node_type nd = ''startCall''"
    | (play) "node_type nd = ''playAudio''"
    | (endc) "node_type nd = ''endCall''"
    | (ai) "node_type nd = ''aiNode''" "truthy (dict_get (node_data nd) ''flowId'')"
    by blast
  then show ?thesis
  proof cases
    case start
    then have "run_node nd uuid s2 =
        (Inr (JObj [(''call_sid'', JStr (''CA'' @ uuid)), (''status'', JStr ''initiated''),
                    (''from'', JStr ''+15551234567''), (''to'', JStr ''+15559876543'')]),
         sleep 0 s2)"
      by (simp add: msg_defs run_node_def sleep_0)
    from execute_node_returns [OF assms(1,2) this s2_def, of inp] start
    show ?thesis by (simp add: msg_defs final_simps s2)
  next
    case play
    then have "run_node nd uuid s2 =
        (Inr (JObj [(''audio_id'', JStr (''audio_'' @ uuid)),
                    (''message'', dict_get_default (node_data nd) ''audioMessage''
                                    (JStr ''Hello, this is a default message.'')),
                    (''status'', JStr ''generated'')]),
         sleep 1 s2)"
      by (simp add: msg_defs run_node_def)
    from execute_node_returns [OF assms(1,2) this s2_def, of inp] play
    show ?thesis by (simp add: msg_defs final_simps s2)
  next
    case endc
    then have "run_node nd uuid s2 =
        (Inr (JObj [(''status'', JStr ''completed''), (''duration'', JInt 120),
                    (''outcome'', JStr ''success'')]),
         sleep 0 s2)"
      by (simp add: msg_defs run_node_def sleep_0)
    from execute_node_returns [OF assms(1,2) this s2_def, of inp] endc
    show ?thesis by (simp add: msg_defs final_simps s2)
  next
    case ai
    then have "run_node nd uuid s2 =
        (Inr (JObj [(''response'', JStr ''This is a simulated AI response''),
                    (''confidence'', JFloat (95 / 100)), (''intent'', JStr ''greeting'')]),
         sleep 2 s2)"
      by (simp add: msg_defs run_node_def)
    from execute_node_returns [OF assms(1,2) this s2_def, of inp] ai
    show ?thesis by (simp add: msg_defs final_simps s2)
  qed
qed

theorem known_node_types_succeed_witness:
  "find_one example_db ''w1'' = Some example_workflow \<and>
   fst (execute_node example_db ''n5'' ''w1'' Map.empty ''u'' example_state) =
     Inr (JObj [(''success'', JBool True),
                (''data'', JObj [(''call_sid'', JStr ''CAu''), (''status'', JStr ''initiated''),
                                 (''from'', JStr ''+15551234567''),
                                 (''to'', JStr ''+15559876543'')])]) \<and>
   delivered 7 (snd (execute_node example_db ''n5'' ''w1'' Map.empty ''u'' example_state)) =
     [\<lparr>msg_type = ''node_execution_start'',
       msg_data = JObj [(''node_id'', JStr ''n5''), (''workflow_id'', JStr ''w1''),
          (''status'', JStr ''running'')],
       msg_timestamp = 100\<rparr>,
      \<lparr>msg_type = ''node_execution_complete'',
       msg_data = JObj [(''node_id'', JStr ''n5''), (''workflow_id'', JStr ''w1''),
          (''status'', JStr ''completed''),
          (''result'', JObj [(''call_sid'', JStr ''CAu''), (''status'', JStr ''initiated''), (''from'', JStr ''+15551234567''), (''to'', JStr ''+15559876543'')])],
       msg_timestamp = 100\<rparr>] \<and>
   delivered 7 (snd (execute_node example_db ''n1'' ''w1'' Map.empty ''u'' example_state)) =
     [\<lparr>msg_type = ''node_execution_start'',
       msg_data = JObj [(''node_id'', JStr ''n1''), (''workflow_id'', JStr ''w1''),
          (''status'', JStr ''running'')],
       msg_timestamp = 100\<rparr>,
      \<lparr>msg_type = ''node_execution_complete'',
       msg_data = JObj [(''node_id'', JStr ''n1''), (''workflow_id'', JStr ''w1''),
          (''status'', JStr ''completed''),
          (''result'', JObj [(''audio_id'', JStr ''audio_u''), (''message'', JStr ''Hi''), (''status'', JStr ''generated'')])],
       msg_timestamp = 101\<rparr>] \<and>
   delivered 7 (snd (execute_node example_db ''n4'' ''w1'' Map.empty ''u'' example_state)) =
     [\<lparr>msg_type = ''node_execution_start'',
       msg_data = JObj [(''node_id'', JStr ''n4''), (''workflow_id'', JStr ''w1''),
          (''status'', JStr ''running'')],
       msg_timestamp = 100\<rparr>,
      \<lparr>msg_type = ''node_execution_complete'',
       msg_data = JObj [(''node_id'', JStr ''n4''), (''workflow_id'', JStr ''w1''),
          (''status'', JStr ''completed''),
          (''result'', JObj [(''response'', JStr ''This is a simulated AI response''), (''confidence'', JFloat (95 / 100)), (''intent'', JStr ''greeting'')])],
       msg_timestamp = 102\<rparr>] \<and>
   delivered 7 (snd (execute_node example_db ''n6'' ''w1'' Map.empty ''u'' example_state)) =
     [\<lparr>msg_type = ''node_execution_start'',
       msg_data = JObj [(''node_id'', JStr ''n6''), (''workflow_id'', JStr ''w1''),
          (''status'', JStr ''running'')],
       msg_timestamp = 100\<rparr>,
      \<lparr>msg_type = ''node_execution_complete'',
       msg_data = JObj [(''node_id'', JStr ''n6''), (''workflow_id'', JStr ''w1''),
          (''status'', JStr ''completed''),
          (''result'', JObj [(''status'', JStr ''completed''), (''duration'', JInt 120), (''outcome'', JStr ''success'')])],
       msg_timestamp = 100\<rparr>]"
proof -
  have n5: "fst (execute_node example_db ''n5'' ''w1'' Map.empty ''u'' example_state) =
     Inr (JObj [(''success'', JBool True),
                (''data'', JObj [(''call_sid'', JStr ''CAu''), (''status'', JStr ''initiated''),
                                 (''from'', JStr ''+15551234567''),
                                 (''to'', JStr ''+15559876543'')])]) \<and>
   delivered 7 (snd (execute_node example_db ''n5'' ''w1'' Map.empty ''u'' example_state)) =
     [\<lparr>msg_type = ''node_execution_start'',
       msg_data = JObj [(''node_id'', JStr ''n5''), (''workflow_id'', JStr ''w1''),
          (''status'', JStr ''running'')],
       msg_timestamp = 100\<rparr>,
      \<lparr>msg_type = ''node_execution_complete'',
       msg_data = JObj [(''node_id'', JStr ''n5''), (''workflow_id'', JStr ''w1''),
          (''status'', JStr ''completed''),
          (''result'', JObj [(''call_sid'', JStr ''CAu''), (''status'', JStr ''initiated''), (''from'', JStr ''+15551234567''), (''to'', JStr ''+15559876543'')])],
       msg_timestamp = 100\<rparr>]"
    using known_node_types_succeed [OF example_find_one example_find_node(5),
            of Map.empty "''u''" example_state]
    by (auto simp add: msg_defs example_subscribers example_delivered example_clock example_clock_after)
  have n1: "delivered 7 (snd (execute_node example_db ''n1'' ''w1'' Map.empty ''u'' example_state)) =
     [\<lparr>msg_type = ''node_execution_start'',
       msg_data = JObj [(''node_id'', JStr ''n1''), (''workflow_id'', JStr ''w1''),
          (''status'', JStr ''running'')],
       msg_timestamp = 100\<rparr>,
      \<lparr>msg_type = ''node_execution_complete'',
       msg_data = JObj [(''node_id'', JStr ''n1''), (''workflow_id'', JStr ''w1''),
          (''status'', JStr ''completed''),
          (''result'', JObj [(''audio_id'', JStr ''audio_u''), (''message'', JStr ''Hi''), (''status'', JStr ''generated'')])],
       msg_timestamp = 101\<rparr>]"
    using known_node_types_succeed [OF example_find_one example_find_node(1),
            of Map.empty "''u''" example_state]
    by (auto simp add: msg_defs example_subscribers example_delivered example_clock example_clock_after
          dict_get_default_def)
  have n4: "delivered 7 (snd (execute_node example_db ''n4'' ''w1'' Map.empty ''u'' example_state)) =
     [\<lparr>msg_type = ''node_execution_start'',
       msg_data = JObj [(''node_id'', JStr ''n4''), (''workflow_id'', JStr ''w1''),
          (''status'', JStr ''running'')],
       msg_timestamp = 100\<rparr>,
      \<lparr>msg_type = ''node_execution_complete'',
       msg_data = JObj [(''node_id'', JStr ''n4''), (''workflow_id'', JStr ''w1''),
          (''status'', JStr ''completed''),
          (''result'', JObj [(''response'', JStr ''This is a simulated AI response''), (''confidence'', JFloat (95 / 100)), (''intent'', JStr ''greeting'')])],
       msg_timestamp = 102\<rparr>]"
    using known_node_types_succeed [OF example_find_one example_find_node(4),
            of Map.empty "''u''" example_state]
    by (auto simp add: msg_defs example_subscribers example_delivered example_clock example_clock_after
          dict_get_def)
  have n6: "delivered 7 (snd (execute_node example_db ''n6'' ''w1'' Map.empty ''u'' example_state)) =
     [\<lparr>msg_type = ''node_execution_start'',
       msg_data = JObj [(''node_id'', JStr ''n6''), (''workflow_id'', JStr ''w1''),
          (''status'', JStr ''running'')],
       msg_timestamp = 100\<rparr>,
      \<lparr>msg_type = ''node_execution_complete'',
       msg_data = JObj [(''node_id'', JStr ''n6''), (''workflow_id'', JStr ''w1''),
          (''status'', JStr ''completed''),
          (''result'', JObj [(''status'', JStr ''completed''), (''duration'', JInt 120), (''outcome'', JStr ''success'')])],
       msg_timestamp = 100\<rparr>]"
    using known_node_types_succeed [OF example_find_one example_find_node(6),
            of Map.empty "''u''" example_state]
    by (auto simp add: msg_defs example_subscribers example_delivered example_clock example_clock_after)
  from example_find_one n5 n1 n4 n6 show ?thesis by blast
qed

text \<open>
  C5. A \<open>playAudio\<close> node returns \<open>success\<close> true with an audio id made from a fresh
  uuid, the configured \<open>audioMessage\<close> as \<open>message\<close> (the default sentence when the key
  is missing) and status "generated", and the clock has advanced by one second. The
  instance below is the node with \<open>audioMessage\<close> "Hi".
\<close>

theorem playAudio_result:
  assumes "find_one db wid = Some w" and "find_node w nid = Some nd"
    and "node_type nd = ''playAudio''"
  shows "fst (execute_node db nid wid inp uuid s) =
           Inr (JObj [(''success'', JBool True),
                      (''data'', JObj [(''audio_id'', JStr (''audio_'' @ uuid)),
                                       (''message'',
                                          (case node_data nd ''audioMessage'' of
                                             None \<Rightarrow> JStr ''Hello, this is a default message.''
                                           | Some v \<Rightarrow> v)),
                                       (''status'', JStr ''generated'')])]) \<and>
         clock (snd (execute_node db nid wid inp uuid s)) = clock s + 1"
proof -
  define s2 where "s2 = (broadcast_to_workflow wid (start_message nid wid (clock s)) s)
      \<lparr>node_executions := (node_executions s)(node_type nd := node_executions s (node_type nd) + 1)\<rparr>"
  from assms(3) have "run_node nd uuid s2 =
        (Inr (JObj [(''audio_id'', JStr (''audio_'' @ uuid)),
                    (''message'', dict_get_default (node_data nd) ''audioMessage''
                                    (JStr ''Hello, this is a default message.'')),
                    (''status'', JStr ''generated'')]),
         sleep 1 s2)"
    by (simp add: run_node_def)
  moreover have "clock s2 = clock s"
    by (simp add: s2_def bc_simps)
  ultimately show ?thesis
    using execute_node_returns [OF assms(1,2) _ s2_def, of uuid _ 1 inp]
    by (simp add: final_simps dict_get_default_def)
qed

theorem playAudio_result_witness:
  "find_one example_db ''w1'' = Some example_workflow \<and>
   find_node example_workflow ''n1'' =
     Some \<lparr>node_id = ''n1'', node_type = ''playAudio'',
           node_data = [''audioMessage'' \<mapsto> JStr ''Hi'']\<rparr> \<and>
   fst (execute_node example_db ''n1'' ''w1'' Map.empty ''u'' example_state) =
     Inr (JObj [(''success'', JBool True),
                (''data'', JObj [(''audio_id'', JStr ''audio_u''), (''message'', JStr ''Hi''),
                                 (''status'', JStr ''generated'')])]) \<and>
   clock (snd (execute_node example_db ''n1'' ''w1'' Map.empty ''u'' example_state)) = 101"
  using playAudio_result [OF example_find_one example_find_node(1),
          of Map.empty "''u''" example_state]
  by (simp add: example_find_one example_find_node example_clock)

text \<open>
  C4. A node whose type is none of the four known ones does not fail: the call
  returns \<open>success\<close> true with \<open>None\<close> as data.
\<close>

theorem unknown_node_type_succeeds:
  assumes "find_one db wid = Some w" and "find_node w nid = Some nd"
    and "node_type nd \<notin> {''startCall'', ''playAudio'', ''aiNode'', ''endCall''}"
  shows "fst (execute_node db nid wid inp uuid s) =
           Inr (JObj [(''success'', JBool True), (''data'', JNull)])"
  using assms
  by (simp add: execute_node_def try_block_def run_node_def Let_def split: prod.splits)

theorem unknown_node_type_succeeds_witness:
  "find_one example_db ''w1'' = Some example_workflow \<and>
   find_node example_workflow ''n7'' =
     Some \<lparr>node_id = ''n7'', node_type = ''transfer'', node_data = Map.empty\<rparr> \<and>
   ''transfer'' \<notin> {''startCall'', ''playAudio'', ''aiNode'', ''endCall''} \<and>
   fst (execute_node example_db ''n7'' ''w1'' Map.empty ''u'' example_state) =
     Inr (JObj [(''success'', JBool True), (''data'', JNull)])"
  using unknown_node_type_succeeds [OF example_find_one example_find_node(7),
          of Map.empty "''u''" example_state]
  by (simp add: example_find_one example_find_node)

text \<open>
  C9. For such a node the call still writes to Redis: the entry of the node is
  replaced by one with result \<open>None\<close>, expiring 3600 seconds later, and the completion
  message that follows the start message carries \<open>None\<close> as result.
\<close>

theorem unknown_node_type_overwrites_cache:
  assumes "find_one db wid = Some w" and "find_node w nid = Some nd"
    and "node_type nd \<notin> {''startCall'', ''playAudio'', ''aiNode'', ''endCall''}"
  shows "redis (snd (execute_node db nid wid inp uuid s)) (''node_result:'' @ nid) =
           Some (\<lparr>cached_result = JNull, cached_timestamp = clock s\<rparr>, clock s + 3600) \<and>
         (\<forall>ws. delivered ws (snd (execute_node db nid wid inp uuid s)) =
            delivered ws s
            @ replicate (count_list (subscribers s wid) ws)
           (\<lparr>msg_type = ''node_execution_start'',
             msg_data = JObj [(''node_id'', JStr nid), (''workflow_id'', JStr wid),
                (''status'', JStr ''running'')],
             msg_timestamp = clock s\<rparr>)
            @ replicate (count_list (subscribers s wid) ws)
                (\<lparr>msg_type = ''node_execution_complete'',
                  msg_data = JObj [(''node_id'', JStr nid), (''workflow_id'', JStr wid),
                     (''status'', JStr ''completed''), (''result'', JNull)],
                  msg_timestamp = clock s\<rparr>))"
proof -
  define s2 where "s2 = (broadcast_to_workflow wid (start_message nid wid (clock s)) s)
      \<lparr>node_executions := (node_executions s)(node_type nd := node_executions s (node_type nd) + 1)\<rparr>"
  have s2: "clock s2 = clock s" "subscribers s2 wid = subscribers s wid"
    "\<And>ws. delivered ws s2 = delivered ws s
        @ replicate (count_list (subscribers s wid) ws)
           (\<lparr>msg_type = ''node_execution_start'',
             msg_data = JObj [(''node_id'', JStr nid), (''workflow_id'', JStr wid),
                (''status'', JStr ''running'')],
             msg_timestamp = clock s\<rparr>)"
    by (simp_all add: msg_defs s2_def bc_simps)
  from assms(3) have "run_node nd uuid s2 = (Inr JNull, sleep 0 s2)"
    by (simp add: msg_defs run_node_def sleep_0)
  from execute_node_returns [OF assms(1,2) this s2_def, of inp]
  show ?thesis by (simp add: msg_defs final_simps s2)
qed

theorem unknown_node_type_overwrites_cache_witness:
  "find_one example_db ''w1'' = Some example_workflow \<and>
   find_node example_workflow ''n7'' =
     Some \<lparr>node_id = ''n7'', node_type = ''transfer'', node_data = Map.empty\<rparr> \<and>
   ''transfer'' \<notin> {''startCall'', ''playAudio'', ''aiNode'', ''endCall''} \<and>
   redis example_state ''node_result:n7'' =
     Some (\<lparr>cached_result = JStr ''old'', cached_timestamp = 50\<rparr>, 3650) \<and>
   redis (snd (execute_node example_db ''n7'' ''w1'' Map.empty ''u'' example_state))
       ''node_result:n7'' =
     Some (\<lparr>cached_result = JNull, cached_timestamp = 100\<rparr>, 3700) \<and>
   delivered 7 (snd (execute_node example_db ''n7'' ''w1'' Map.empty ''u'' example_state)) =
     [\<lparr>msg_type = ''node_execution_start'',
       msg_data = JObj [(''node_id'', JStr ''n7''), (''workflow_id'', JStr ''w1''),
          (''status'', JStr ''running'')],
       msg_timestamp = 100\<rparr>, \<lparr>msg_type = ''node_execution_complete'',
                                     msg_data = JObj [(''node_id'', JStr ''n7''), (''workflow_id'', JStr ''w1''),
                                        (''status'', JStr ''completed''), (''result'', JNull)],
                                     msg_timestamp = 100\<rparr>]"
proof -
  have "redis example_state ''node_result:n7'' =
     Some (\<lparr>cached_result = JStr ''old'', cached_timestamp = 50\<rparr>, 3650)"
    by (simp add: msg_defs example_state_def)
  with unknown_node_type_overwrites_cache [OF example_find_one example_find_node(7),
          of Map.empty "''u''" example_state]
  show ?thesis
    by (simp add: msg_defs example_find_one example_find_node example_subscribers example_delivered
          example_clock)
qed

section \<open>The cached result\<close>

text \<open>
  C6. Whenever \<open>execute_node\<close> returns \<open>success\<close> true, the Redis entry under
  \<open>node_result:\<close> followed by the node id holds the returned data, stamped with the
  time of the write, and expires exactly 3600 seconds after that time, whatever was
  stored under the key before. A read before that time returns this entry; a read at
  or after it is a miss.
\<close>

theorem successful_execute_is_cached:
  assumes "fst (execute_node db nid wid inp uuid s) =
             Inr (JObj [(''success'', JBool True), (''data'', result)])"
  shows "redis (snd (execute_node db nid wid inp uuid s)) (''node_result:'' @ nid) =
           Some (\<lparr>cached_result = result,
                  cached_timestamp = clock (snd (execute_node db nid wid inp uuid s))\<rparr>,
                 clock (snd (execute_node db nid wid inp uuid s)) + 3600) \<and>
         (\<forall>t. t < clock (snd (execute_node db nid wid inp uuid s)) + 3600 \<longrightarrow>
            cache_get t (''node_result:'' @ nid) (snd (execute_node db nid wid inp uuid s)) =
              Some \<lparr>cached_result = result,
                    cached_timestamp = clock (snd (execute_node db nid wid inp uuid s))\<rparr>) \<and>
         (\<forall>t. clock (snd (execute_node db nid wid inp uuid s)) + 3600 \<le> t \<longrightarrow>
            cache_get t (''node_result:'' @ nid) (snd (execute_node db nid wid inp uuid s)) = None)"
proof -
  obtain w where w: "find_one db wid = Some w"
    using assms by (cases "find_one db wid") (simp_all add: execute_node_def)
  obtain nd where nd: "find_node w nid = Some nd"
    using assms w by (cases "find_node w nid") (simp_all add: execute_node_def)
  obtain r s' where tb: "try_block nid wid nd uuid s = (r, s')"
    by (cases "try_block nid wid nd uuid s")
  show ?thesis
  proof (cases r)
    case (Inl e)
    with tb have "str_exn e \<noteq> []" by (simp add: try_block_error)
    with assms w nd tb Inl have False
      by (simp add: execute_node_def except_block_def Let_def)
    then show ?thesis ..
  next
    case (Inr r')
    with assms w nd tb have ex: "execute_node db nid wid inp uuid s =
        (Inr (JObj [(''success'', JBool True), (''data'', result)]), s')" and "r' = result"
      by (simp_all add: execute_node_def)
    from tb Inr \<open>r' = result\<close> have "try_block nid wid nd uuid s = (Inr result, s')"
      by simp
    from try_block_cached [OF this] ex show ?thesis
      by (simp add: cache_get_def)
  qed
qed

theorem successful_execute_is_cached_witness:
  "fst (execute_node example_db ''n1'' ''w1'' Map.empty ''u'' example_state) =
     Inr (JObj [(''success'', JBool True),
                (''data'', JObj [(''audio_id'', JStr ''audio_u''), (''message'', JStr ''Hi''),
                                 (''status'', JStr ''generated'')])]) \<and>
   redis (snd (execute_node example_db ''n1'' ''w1'' Map.empty ''u'' example_state))
       ''node_result:n1'' =
     Some (\<lparr>cached_result = JObj [(''audio_id'', JStr ''audio_u''), (''message'', JStr ''Hi''),
                                   (''status'', JStr ''generated'')],
            cached_timestamp = 101\<rparr>, 3701) \<and>
   cache_get 3700 ''node_result:n1''
       (snd (execute_node example_db ''n1'' ''w1'' Map.empty ''u'' example_state)) =
     Some \<lparr>cached_result = JObj [(''audio_id'', JStr ''audio_u''), (''message'', JStr ''Hi''),
                                 (''status'', JStr ''generated'')],
           cached_timestamp = 101\<rparr> \<and>
   cache_get 3701 ''node_result:n1''
       (snd (execute_node example_db ''n1'' ''w1'' Map.empty ''u'' example_state)) = None"
proof -
  have a: "fst (execute_node example_db ''n1'' ''w1'' Map.empty ''u'' example_state) =
     Inr (JObj [(''success'', JBool True),
                (''data'', JObj [(''audio_id'', JStr ''audio_u''), (''message'', JStr ''Hi''),
                                 (''status'', JStr ''generated'')])])"
    by (simp add: exec_defs example_find_one example_find_node example_state_def
          split: option.splits)
  from successful_execute_is_cached [OF a] a show ?thesis
    by (simp add: example_clock_after)
qed

section \<open>Disconnecting twice\<close>

text \<open>
  C7. \<open>disconnect\<close> is not idempotent: after a handle has been connected and
  disconnected once, its workflow id is still a key of the dictionary, the guard
  passes, and \<open>list.remove\<close> raises \<open>ValueError\<close> on the second call.
\<close>

theorem disconnect_twice_raises:
  "disconnect 7 ''w1'' (connect 7 ''w1'' Map.empty) = Inr [''w1'' \<mapsto> []] \<and>
   disconnect 7 ''w1'' [''w1'' \<mapsto> []] = Inl (ValueError ''list.remove(x): x not in list'')"
  by (simp add: disconnect_def connect_def)

section \<open>Publishing to a blocked subscriber\<close>

lemma send_all_blocking_takeWhile:
  "send_all_blocking blocked cs msg tr =
     (if \<forall>c \<in> set cs. c \<notin> blocked then Returned else Suspended,
      tr @ map (\<lambda>c. (c, msg)) (takeWhile (\<lambda>c. c \<notin> blocked) cs))"
  by (induction cs arbitrary: tr) simp_all

lemma example_three_subscribers: "subscribers example_state_three ''w1'' = [8, 7, 9]"
  by (simp add: subscribers_def example_state_three_def)

lemma example_three_sent: "sent example_state_three = []"
  by (simp add: example_state_three_def example_state_def)

text \<open>
  C8 (as amended). Publishing sends the event to the subscribers of the workflow one
  after another, in the order they connected, and waits for each send. If none of
  them is blocked the publish returns, having sent the event to every one of them, as
  \<open>broadcast_to_workflow\<close> does. If one is blocked the publish stays suspended at the
  first blocked subscriber: those connected before it have been sent the event, the
  blocked one and all those after it have not.
\<close>

theorem broadcast_is_sequential:
  "broadcast_to_workflow_blocking blocked wid msg s =
     (if \<forall>c \<in> set (subscribers s wid). c \<notin> blocked then Returned else Suspended,
      s\<lparr>sent := sent s @
            map (\<lambda>c. (c, msg)) (takeWhile (\<lambda>c. c \<notin> blocked) (subscribers s wid))\<rparr>) \<and>
   ((\<forall>c \<in> set (subscribers s wid). c \<notin> blocked) \<longrightarrow>
      snd (broadcast_to_workflow_blocking blocked wid msg s) = broadcast_to_workflow wid msg s)"
proof (intro conjI impI)
  show "broadcast_to_workflow_blocking blocked wid msg s =
     (if \<forall>c \<in> set (subscribers s wid). c \<notin> blocked then Returned else Suspended,
      s\<lparr>sent := sent s @
            map (\<lambda>c. (c, msg)) (takeWhile (\<lambda>c. c \<notin> blocked) (subscribers s wid))\<rparr>)"
    by (simp add: broadcast_to_workflow_blocking_def subscribers_def
          send_all_blocking_takeWhile split: option.splits)
next
  assume free: "\<forall>c \<in> set (subscribers s wid). c \<notin> blocked"
  show "snd (broadcast_to_workflow_blocking blocked wid msg s) =
      broadcast_to_workflow wid msg s"
  proof (cases "active_connections s wid")
    case None
    then show ?thesis
      by (simp add: broadcast_to_workflow_blocking_def broadcast_to_workflow_def)
  next
    case (Some conns)
    with free have "\<forall>c \<in> set conns. c \<notin> blocked"
      by (simp add: subscribers_def)
    with Some show ?thesis
      by (simp add: broadcast_to_workflow_blocking_def broadcast_to_workflow_def
            send_all_blocking_takeWhile send_all_append takeWhile_eq_all_conv [THEN iffD2])
  qed
qed

theorem broadcast_is_sequential_witness:
  "broadcast_to_workflow_blocking {7} ''w1'' (start_message ''n1'' ''w1'' 100) example_state_three =
     (Suspended, example_state_three\<lparr>sent := [(8, start_message ''n1'' ''w1'' 100)]\<rparr>) \<and>
   subscribers example_state_three ''w1'' = [8, 7, 9] \<and>
   broadcast_to_workflow_blocking {} ''w1'' (start_message ''n1'' ''w1'' 100) example_state_three =
     (Returned, example_state_three\<lparr>sent := [(8, start_message ''n1'' ''w1'' 100),
                                              (7, start_message ''n1'' ''w1'' 100),
                                              (9, start_message ''n1'' ''w1'' 100)]\<rparr>) \<and>
   snd (broadcast_to_workflow_blocking {} ''w1'' (start_message ''n1'' ''w1'' 100)
          example_state_three) =
     broadcast_to_workflow ''w1'' (start_message ''n1'' ''w1'' 100) example_state_three"
proof -
  have a: "broadcast_to_workflow_blocking {7} ''w1'' (start_message ''n1'' ''w1'' 100)
             example_state_three =
     (Suspended, example_state_three\<lparr>sent := [(8, start_message ''n1'' ''w1'' 100)]\<rparr>)"
    using broadcast_is_sequential [of "{7}" "''w1''" "start_message ''n1'' ''w1'' 100"
            example_state_three]
    by (simp add: example_three_subscribers example_three_sent)
  have b: "\<forall>c \<in> set (subscribers example_state_three ''w1''). c \<notin> {}"
    by simp
  have c: "broadcast_to_workflow_blocking {} ''w1'' (start_message ''n1'' ''w1'' 100)
             example_state_three =
     (Returned, example_state_three\<lparr>sent := [(8, start_message ''n1'' ''w1'' 100),
                                              (7, start_message ''n1'' ''w1'' 100),
                                              (9, start_message ''n1'' ''w1'' 100)]\<rparr>)"
    using broadcast_is_sequential [of "{}" "''w1''" "start_message ''n1'' ''w1'' 100"
            example_state_three]
    by (simp add: example_three_subscribers example_three_sent)
  have d: "snd (broadcast_to_workflow_blocking {} ''w1'' (start_message ''n1'' ''w1'' 100)
          example_state_three) =
     broadcast_to_workflow ''w1'' (start_message ''n1'' ''w1'' 100) example_state_three"
    using broadcast_is_sequential [of "{}" "''w1''" "start_message ''n1'' ''w1'' 100"
            example_state_three] b
    by blast
  from a c d example_three_subscribers show ?thesis by blast
qed

text \<open>
  C8 as written does not hold. With handles 8, 7 and 9 connected and handle 7 blocked,
  the publish does not return and handle 9, which would have been sent the event had 7
  not been blocked, is sent nothing.
\<close>

theorem blocked_subscriber_blocks_publish:
  "fst (broadcast_to_workflow_blocking {7} ''w1'' (start_message ''n1'' ''w1'' 100)
          example_state_three) = Suspended \<and>
   delivered 8 (snd (broadcast_to_workflow_blocking {7} ''w1'' (start_message ''n1'' ''w1'' 100)
          example_state_three)) = [start_message ''n1'' ''w1'' 100] \<and>
   delivered 9 (snd (broadcast_to_workflow_blocking {7} ''w1'' (start_message ''n1'' ''w1'' 100)
          example_state_three)) = [] \<and>
   delivered 9 (snd (broadcast_to_workflow_blocking {} ''w1'' (start_message ''n1'' ''w1'' 100)
          example_state_three)) = [start_message ''n1'' ''w1'' 100]"
  by (simp add: broadcast_to_workflow_blocking_def example_state_three_def example_state_def
        delivered_def)

end
